theory Spec2Isabelle
  imports Main
begin

section \<open>Data model (src/src/types.ts; db/schema.ts in src/unnamed/part_015)\<close>

text \<open>
  The recommendation record of \<^verbatim>\<open>types.ts\<close> and the watch-history item. The watch
  timestamp is a JavaScript \<^verbatim>\<open>Date\<close>; only \<^verbatim>\<open>getTime()\<close> is ever read from it, so it is
  kept as the integer number of milliseconds.
\<close>

record Recommendation =
  imdbId :: string
  title :: string
  reason :: string

datatype history_type = HMovie | HShow

record WatchHistoryItem =
  h_imdbId :: string
  h_title :: string
  h_year :: int
  h_type :: history_type
  h_genres :: "string list"
  h_rating :: "int option"
  watchedAt :: int
  h_runtime :: "int option"
  h_certification :: "string option"

datatype content_type = Movie | Series

record StremioMeta =
  meta_id :: string
  meta_type :: content_type
  meta_name :: string
  meta_description :: string

record AIResponse =
  recommendations :: "Recommendation list"
  analysis :: "string option"

text \<open>
  The three error classes the catalog handler tells apart in its \<^verbatim>\<open>catch\<close> block:
  \<^verbatim>\<open>TraktServiceError\<close>, \<^verbatim>\<open>AIProviderError\<close> and any other \<^verbatim>\<open>Error\<close>; each carries
  its message.
\<close>

datatype error = TraktServiceError string | AIProviderError string | OtherError string

text \<open>
  A \<^verbatim>\<open>data TEXT\<close> column holds JSON text. A text is either what \<^verbatim>\<open>JSON.stringify\<close> made
  of a value, which \<^verbatim>\<open>JSON.parse\<close> reads back, or some other text, on which
  \<^verbatim>\<open>JSON.parse\<close> throws.
\<close>

datatype 'a json_text = Serialized 'a | Malformed string

definition JSON_stringify :: "'a \<Rightarrow> 'a json_text" where
  "JSON_stringify v = Serialized v"

fun JSON_parse :: "'a json_text \<Rightarrow> 'a option" where
  "JSON_parse (Serialized v) = Some v"
| "JSON_parse (Malformed s) = None"

record history_row =
  hr_data :: "WatchHistoryItem list json_text"
  hr_trakt_username :: "string option"
  hr_item_count :: nat
  hr_created_at :: int
  hr_updated_at :: int

record recommendation_row =
  rr_data :: "Recommendation list json_text"
  rr_history_hash :: string
  rr_created_at :: int
  rr_updated_at :: int

text \<open>
  The two tables, each with the text column \<^verbatim>\<open>user_id\<close> as primary key, so a table is a
  map from that key to its one row.
\<close>

record database =
  history_cache :: "string \<rightharpoonup> history_row"
  recommendation_cache :: "string \<rightharpoonup> recommendation_row"

definition CACHE_TTL_history :: int where
  "CACHE_TTL_history = 60 * 60"

definition CACHE_TTL_recommendations :: int where
  "CACHE_TTL_recommendations = 60 * 60 * 4"

section \<open>Cache repository (src/src/db/CacheRepository.ts)\<close>

text \<open>Decimal text of a number, as a template literal prints an integer.\<close>

definition decimal_digit :: "nat \<Rightarrow> char" where
  "decimal_digit d = ''0123456789'' ! (d mod 10)"

fun string_of_nat :: "nat \<Rightarrow> string" where
  "string_of_nat n =
     (if n div 10 = 0 then [decimal_digit n]
      else string_of_nat (n div 10) @ [decimal_digit n])"

declare string_of_nat.simps [simp del]

definition string_of_int :: "int \<Rightarrow> string" where
  "string_of_int i =
     (if i < 0 then CHR ''-'' # string_of_nat (nat (- i)) else string_of_nat (nat i))"

text \<open>\<^verbatim>\<open>Array.prototype.join\<close>.\<close>

fun join :: "string \<Rightarrow> string list \<Rightarrow> string" where
  "join sep [] = []"
| "join sep [x] = x"
| "join sep (x # y # ys) = x @ sep @ join sep (y # ys)"

text \<open>
  \<^verbatim>\<open>hashHistory\<close>: the first 16 hexadecimal characters of the SHA-256 digest of the
  joined \<^verbatim>\<open>imdbId:watchedAt\<close> entries. The digest function of the \<^verbatim>\<open>crypto\<close> module
  is the parameter \<open>sha\<close>.
\<close>

definition hashHistory :: "(string \<Rightarrow> string) \<Rightarrow> WatchHistoryItem list \<Rightarrow> string" where
  "hashHistory sha history =
     take 16 (sha (join ''|''
       (map (\<lambda>h. h_imdbId h @ '':'' @ string_of_int (watchedAt h)) history)))"

text \<open>\<^verbatim>\<open>isValid\<close>; \<open>now\<close> is \<^verbatim>\<open>Math.floor(Date.now() / 1000)\<close>.\<close>

definition isValid :: "int \<Rightarrow> int \<Rightarrow> int \<Rightarrow> bool" where
  "isValid now updatedAt ttlSeconds \<longleftrightarrow> now - updatedAt < ttlSeconds"

definition getHistory :: "int \<Rightarrow> database \<Rightarrow> string \<Rightarrow> WatchHistoryItem list option" where
  "getHistory now db userId =
     (case history_cache db userId of
        None \<Rightarrow> None
      | Some row \<Rightarrow>
          if \<not> isValid now (hr_updated_at row) CACHE_TTL_history then None
          else JSON_parse (hr_data row))"

definition setHistory ::
  "int \<Rightarrow> string \<Rightarrow> WatchHistoryItem list \<Rightarrow> string option \<Rightarrow> database \<Rightarrow> database" where
  "setHistory now userId history traktUsername db =
     db\<lparr>history_cache := (history_cache db)(userId \<mapsto>
        (case history_cache db userId of
           None \<Rightarrow> \<lparr>hr_data = JSON_stringify history, hr_trakt_username = traktUsername,
                     hr_item_count = length history, hr_created_at = now, hr_updated_at = now\<rparr>
         | Some row \<Rightarrow> row\<lparr>hr_data := JSON_stringify history,
                            hr_trakt_username := traktUsername,
                            hr_item_count := length history, hr_updated_at := now\<rparr>))\<rparr>"

definition getRecommendations ::
  "(string \<Rightarrow> string) \<Rightarrow> int \<Rightarrow> database \<Rightarrow> string \<Rightarrow> WatchHistoryItem list
     \<Rightarrow> Recommendation list option" where
  "getRecommendations sha now db userId currentHistory =
     (case recommendation_cache db userId of
        None \<Rightarrow> None
      | Some row \<Rightarrow>
          if \<not> isValid now (rr_updated_at row) CACHE_TTL_recommendations then None
          else if rr_history_hash row \<noteq> hashHistory sha currentHistory then None
          else JSON_parse (rr_data row))"

definition setRecommendations ::
  "(string \<Rightarrow> string) \<Rightarrow> int \<Rightarrow> string \<Rightarrow> Recommendation list \<Rightarrow> WatchHistoryItem list
     \<Rightarrow> database \<Rightarrow> database" where
  "setRecommendations sha now userId recs history db =
     db\<lparr>recommendation_cache := (recommendation_cache db)(userId \<mapsto>
        (case recommendation_cache db userId of
           None \<Rightarrow> \<lparr>rr_data = JSON_stringify recs, rr_history_hash = hashHistory sha history,
                     rr_created_at = now, rr_updated_at = now\<rparr>
         | Some row \<Rightarrow> row\<lparr>rr_data := JSON_stringify recs,
                            rr_history_hash := hashHistory sha history,
                            rr_updated_at := now\<rparr>))\<rparr>"

section \<open>Batch sizing (handlers/catalog.ts in src/unnamed/part_004)\<close>

text \<open>\<^verbatim>\<open>PAGE_SIZE\<close> is exported by \<^verbatim>\<open>manifest.ts\<close>; the other constants are the handler's.\<close>

definition PAGE_SIZE :: nat where
  "PAGE_SIZE = 15"

definition FIRST_BATCH_SIZE :: nat where
  "FIRST_BATCH_SIZE = 15"

definition SECOND_BATCH_SIZE :: nat where
  "SECOND_BATCH_SIZE = 45"

definition BATCH_SIZE :: nat where
  "BATCH_SIZE = 100"

definition PREFETCH_THRESHOLD :: int where
  "PREFETCH_THRESHOLD = 30"

record batch =
  batch_size :: nat
  batch_label :: string

definition getBatchSize :: "nat \<Rightarrow> batch" where
  "getBatchSize existingCount =
     (if existingCount = 0 then \<lparr>batch_size = FIRST_BATCH_SIZE, batch_label = ''initial (15)''\<rparr>
      else if existingCount \<le> FIRST_BATCH_SIZE
        then \<lparr>batch_size = SECOND_BATCH_SIZE, batch_label = ''second (45)''\<rparr>
      else \<lparr>batch_size = BATCH_SIZE, batch_label = ''standard (100)''\<rparr>)"

section \<open>Provider selection (handlers/catalog.ts in src/unnamed/part_004)\<close>

text \<open>
  Of \<^verbatim>\<open>UserConfig\<close> the handlers read the Trakt access token, the legacy API key and the
  access tokens of the three OAuth providers. \<^verbatim>\<open>temperature\<close> is only forwarded to the
  provider and left out.
\<close>

record OAuthTokens =
  accessToken :: string
  refreshToken :: string
  expiresAt :: int

record UserConfig =
  geminiApiKey :: "string option"
  traktAccessToken :: string
  traktRefreshToken :: string
  googleOAuth :: "OAuthTokens option"
  openaiOAuth :: "OAuthTokens option"
  claudeOAuth :: "OAuthTokens option"

datatype ProviderType = gemini | openai | claude

record ProviderInfo =
  p_type :: ProviderType
  p_accessToken :: string

text \<open>\<^verbatim>\<open>config.x?.accessToken\<close> is truthy when the tokens exist and the string is not empty.\<close>

definition oauthProvider :: "ProviderType \<Rightarrow> OAuthTokens option \<Rightarrow> ProviderInfo list" where
  "oauthProvider t tokens =
     (case tokens of
        None \<Rightarrow> []
      | Some tk \<Rightarrow> if accessToken tk = [] then []
                  else [\<lparr>p_type = t, p_accessToken = accessToken tk\<rparr>])"

definition getAvailableProviders :: "UserConfig \<Rightarrow> ProviderInfo list" where
  "getAvailableProviders config =
     oauthProvider gemini (googleOAuth config)
     @ oauthProvider openai (openaiOAuth config)
     @ oauthProvider claude (claudeOAuth config)"

record provider_selection =
  sel_provider :: ProviderType
  sel_apiKey :: string
  sel_accessToken :: "string option"

text \<open>
  \<^verbatim>\<open>selectProvider\<close> reads and increments the module's round-robin counter; the counter
  is passed in and returned. It throws a plain \<^verbatim>\<open>Error\<close> when there is neither an OAuth
  provider nor an API key.
\<close>

definition selectProvider :: "UserConfig \<Rightarrow> nat \<Rightarrow> error + (provider_selection \<times> nat)" where
  "selectProvider config providerCounter =
     (let providers = getAvailableProviders config in
      if length providers > 0 then
        (let selected = providers ! (providerCounter mod length providers) in
         Inr (\<lparr>sel_provider = p_type selected, sel_apiKey = [],
                sel_accessToken = Some (p_accessToken selected)\<rparr>, providerCounter + 1))
      else
        (case geminiApiKey config of
           None \<Rightarrow> Inl (OtherError
             ''No AI credentials configured. Please connect an AI provider or add an API key.'')
         | Some k \<Rightarrow>
             if k = [] then Inl (OtherError
               ''No AI credentials configured. Please connect an AI provider or add an API key.'')
             else Inr (\<lparr>sel_provider = gemini, sel_apiKey = k, sel_accessToken = None\<rparr>,
                       providerCounter)))"

section \<open>Server state and the generation coordinator (src/unnamed/part_004)\<close>

text \<open>One call of \<^verbatim>\<open>provider.getRecommendations\<close>, as the backend sees it.\<close>

record backend_call =
  bc_provider :: provider_selection
  bc_history :: "WatchHistoryItem list"
  bc_excludeImdbIds :: "string list"
  bc_count :: nat
  bc_categoryId :: string
  bc_similarTo :: "(string \<times> string \<times> content_type) option"

text \<open>
  \<^verbatim>\<open>generatePromise\<close> is the promise of the async arrow function in
  \<^verbatim>\<open>generateBatch\<close>. While it is pending, the arrow function is suspended either at
  \<^verbatim>\<open>await provider.getRecommendations(...)\<close>, or, when \<^verbatim>\<open>selectProvider\<close> threw, it
  has already ended with that error and the rejection is still to be delivered. The
  promise carries the variables the arrow function closes over.
\<close>

datatype generation_stage = AwaitingBackend | SelectFailed error

record generation =
  g_id :: nat
  g_cacheKey :: string
  g_userId :: string
  g_config :: UserConfig
  g_history :: "WatchHistoryItem list"
  g_existingRecs :: "Recommendation list"
  g_categoryId :: string
  g_batchSize :: nat
  g_isFirstBatch :: bool
  g_stage :: generation_stage

text \<open>
  The mutable state of the process: the SQLite tables, the module-level map
  \<^verbatim>\<open>generationInProgress\<close>, the round-robin counters of \<^verbatim>\<open>catalog.ts\<close> and
  \<^verbatim>\<open>similar.ts\<close>, the calls the generation backend has received so far, and the
  number of promises created.
\<close>

record server =
  db :: database
  generationInProgress :: "string \<rightharpoonup> generation"
  providerCounter :: nat
  similarProviderCounter :: nat
  backend_calls :: "backend_call list"
  next_promise :: nat

text \<open>
  JavaScript runs each stretch of code between two \<^verbatim>\<open>await\<close>s without interruption.
  \<open>generateBatch_call\<close> is \<^verbatim>\<open>generateBatch\<close> from its entry to the point where the
  caller is left waiting: either \<^verbatim>\<open>return existing\<close>, or the start of the arrow function
  up to its \<^verbatim>\<open>await\<close>, \<^verbatim>\<open>generationInProgress.set\<close> and \<^verbatim>\<open>await generatePromise\<close>. It
  returns the promise the caller waits for.
\<close>

definition generateBatch_call ::
  "server \<Rightarrow> string \<Rightarrow> UserConfig \<Rightarrow> WatchHistoryItem list \<Rightarrow> Recommendation list \<Rightarrow> string
     \<Rightarrow> generation \<times> server" where
  "generateBatch_call st userId config history existingRecs categoryId =
     (let cacheKey = userId @ '':'' @ categoryId @ '':generate'' in
      case generationInProgress st cacheKey of
        Some existing \<Rightarrow> (existing, st)
      | None \<Rightarrow>
          (let batchSize = batch_size (getBatchSize (length existingRecs));
               isFirstBatch = (length existingRecs = 0);
               g = \<lparr>g_id = next_promise st, g_cacheKey = cacheKey, g_userId = userId,
                    g_config = config, g_history = history, g_existingRecs = existingRecs,
                    g_categoryId = categoryId, g_batchSize = batchSize,
                    g_isFirstBatch = isFirstBatch, g_stage = AwaitingBackend\<rparr>
           in case selectProvider config (providerCounter st) of
                Inl e \<Rightarrow>
                  (let generatePromise = g\<lparr>g_stage := SelectFailed e\<rparr> in
                   (generatePromise,
                    st\<lparr>generationInProgress :=
                          (generationInProgress st)(cacheKey \<mapsto> generatePromise),
                        next_promise := next_promise st + 1\<rparr>))
              | Inr (sel, counter) \<Rightarrow>
                  (let excludeIds = map imdbId existingRecs;
                       call = \<lparr>bc_provider = sel, bc_history = history,
                               bc_excludeImdbIds = excludeIds, bc_count = batchSize,
                               bc_categoryId = categoryId, bc_similarTo = None\<rparr>
                   in (g,
                       st\<lparr>providerCounter := counter,
                           backend_calls := backend_calls st @ [call],
                           generationInProgress := (generationInProgress st)(cacheKey \<mapsto> g),
                           next_promise := next_promise st + 1\<rparr>))))"

text \<open>
  The rest of the arrow function, run when the backend's promise settles with \<open>resp\<close>:
  the second filter, the cache write, and the chained call of \<^verbatim>\<open>generateBatch\<close> for the
  second batch, which is made while the arrow function is still running, before
  \<^verbatim>\<open>generatePromise\<close> settles. The threshold \<^verbatim>\<open>FIRST_BATCH_SIZE * 0.8\<close> is the double 12.
\<close>

definition generation_body ::
  "(string \<Rightarrow> string) \<Rightarrow> int \<Rightarrow> server \<Rightarrow> generation \<Rightarrow> error + AIResponse
     \<Rightarrow> (error + Recommendation list) \<times> server" where
  "generation_body sha now st g resp =
     (case g_stage g of
        SelectFailed e \<Rightarrow> (Inl e, st)
      | AwaitingBackend \<Rightarrow>
          (case resp of
             Inl e \<Rightarrow> (Inl e, st)
           | Inr response \<Rightarrow>
               (let excludeIds = map imdbId (g_existingRecs g);
                    newRecs = filter (\<lambda>r. imdbId r \<notin> set excludeIds) (recommendations response);
                    allRecs = g_existingRecs g @ newRecs;
                    st1 = st\<lparr>db := setRecommendations sha now (g_userId g) allRecs
                                      (g_history g) (db st)\<rparr>;
                    st2 = (if g_isFirstBatch g \<and> 10 * length newRecs \<ge> FIRST_BATCH_SIZE * 8
                           then snd (generateBatch_call st1 (g_userId g) (g_config g)
                                       (g_history g) allRecs (g_categoryId g))
                           else st1)
                in (Inr newRecs, st2))))"

text \<open>
  \<open>generation_settles\<close>: the arrow function runs to its end, \<^verbatim>\<open>generatePromise\<close> settles
  with its outcome, and the \<^verbatim>\<open>finally\<close> block of the call that created the promise
  deletes the map entry. Every caller waiting for the promise then receives the outcome.
\<close>

definition generation_settles ::
  "(string \<Rightarrow> string) \<Rightarrow> int \<Rightarrow> server \<Rightarrow> generation \<Rightarrow> error + AIResponse
     \<Rightarrow> (error + Recommendation list) \<times> server" where
  "generation_settles sha now st g resp =
     (let (outcome, st1) = generation_body sha now st g resp in
      (outcome,
       st1\<lparr>generationInProgress := (generationInProgress st1)(g_cacheKey g := None)\<rparr>))"

text \<open>A run of calls of \<^verbatim>\<open>generateBatch\<close> with no promise settling in between.\<close>

record batch_request =
  rq_userId :: string
  rq_config :: UserConfig
  rq_history :: "WatchHistoryItem list"
  rq_existingRecs :: "Recommendation list"
  rq_categoryId :: string

fun generateBatch_calls :: "server \<Rightarrow> batch_request list \<Rightarrow> generation list \<times> server" where
  "generateBatch_calls st [] = ([], st)"
| "generateBatch_calls st (r # rs) =
     (let (g, st1) = generateBatch_call st (rq_userId r) (rq_config r) (rq_history r)
                       (rq_existingRecs r) (rq_categoryId r);
          (gs, st2) = generateBatch_calls st1 rs
      in (g # gs, st2))"

text \<open>
  \<^verbatim>\<open>triggerPrefetch\<close> calls \<^verbatim>\<open>generateBatch\<close> without awaiting it. When \<^verbatim>\<open>selectProvider\<close>
  threw in that call, \<^verbatim>\<open>generatePromise\<close> is rejected already: nothing outside the process
  is awaited, so the \<^verbatim>\<open>finally\<close> block of the call deletes the map entry (and the
  \<^verbatim>\<open>.catch\<close> handler logs the error) in the microtasks that follow, before any other
  request runs. The entry is therefore gone from the state the request leaves behind.
\<close>

definition triggerPrefetch ::
  "server \<Rightarrow> string \<Rightarrow> UserConfig \<Rightarrow> WatchHistoryItem list \<Rightarrow> Recommendation list \<Rightarrow> string
     \<Rightarrow> server" where
  "triggerPrefetch st userId config history existingRecs categoryId =
     (let cacheKey = userId @ '':'' @ categoryId @ '':generate'' in
      if generationInProgress st cacheKey \<noteq> None then st
      else
        (let (generatePromise, st1) =
               generateBatch_call st userId config history existingRecs categoryId
         in case g_stage generatePromise of
              AwaitingBackend \<Rightarrow> st1
            | SelectFailed e \<Rightarrow>
                st1\<lparr>generationInProgress := (generationInProgress st1)(cacheKey := None)\<rparr>))"

section \<open>The catalog handler (src/unnamed/part_004)\<close>

text \<open>\<^verbatim>\<open>extractUserId\<close> of \<^verbatim>\<open>utils/configParser.ts\<close> (src/unnamed/part_003).\<close>

definition extractUserId :: "UserConfig \<Rightarrow> string" where
  "extractUserId config = take 16 (traktAccessToken config)"

definition recommendationsToMetas :: "Recommendation list \<Rightarrow> content_type \<Rightarrow> StremioMeta list" where
  "recommendationsToMetas recs contentType =
     map (\<lambda>rec. \<lparr>meta_id = imdbId rec, meta_type = contentType, meta_name = title rec,
                  meta_description = reason rec\<rparr>) recs"

definition createFallbackCatalog :: "string \<Rightarrow> StremioMeta list" where
  "createFallbackCatalog message =
     [\<lparr>meta_id = ''error'', meta_type = Movie, meta_name = ''Configuration Required'',
       meta_description = message\<rparr>]"

text \<open>\<^verbatim>\<open>Array.prototype.slice(start, end)\<close> on integers; a negative index counts from the end.\<close>

definition js_slice :: "'a list \<Rightarrow> int \<Rightarrow> int \<Rightarrow> 'a list" where
  "js_slice xs start fin =
     (let len = int (length xs);
          k = (if start < 0 then max (len + start) 0 else min start len);
          final = (if fin < 0 then max (len + fin) 0 else min fin len)
      in take (nat (final - k)) (drop (nat k) xs))"

text \<open>
  \<^verbatim>\<open>getWatchHistory\<close>. \<open>trakt\<close> is what \<^verbatim>\<open>traktService.getWatchHistory(50)\<close> settles
  with when it is called, \<open>profile\<close> the user name \<^verbatim>\<open>getUserProfile\<close> yields (its failure
  is caught and gives none).
\<close>

definition getWatchHistory ::
  "int \<Rightarrow> server \<Rightarrow> string \<Rightarrow> error + WatchHistoryItem list \<Rightarrow> string option
     \<Rightarrow> (error + WatchHistoryItem list) \<times> server" where
  "getWatchHistory now st userId trakt profile =
     (case getHistory now (db st) userId of
        Some history \<Rightarrow> (Inr history, st)
      | None \<Rightarrow>
          (case trakt of
             Inl e \<Rightarrow> (Inl e, st)
           | Inr history \<Rightarrow>
               (Inr history, st\<lparr>db := setHistory now userId history profile (db st)\<rparr>)))"

text \<open>The \<^verbatim>\<open>catch\<close> block of \<^verbatim>\<open>getCatalog\<close>.\<close>

fun catalog_catch :: "error \<Rightarrow> StremioMeta list" where
  "catalog_catch (TraktServiceError m) = createFallbackCatalog (''Trakt error: '' @ m)"
| "catalog_catch (AIProviderError m) = createFallbackCatalog (''AI error: '' @ m)"
| "catalog_catch (OtherError m) = createFallbackCatalog ''Failed to generate recommendations''"

text \<open>
  \<^verbatim>\<open>getCatalog\<close> for one request, from entry to its return value, with no other request
  running in between. \<open>traktConfigured\<close> says whether both Trakt environment variables
  are set; \<open>trakt\<close> and \<open>profile\<close> are the outcomes of the Trakt calls; \<open>resp\<close> is what
  the backend call settles with that the awaited \<^verbatim>\<open>generatePromise\<close> depends on; \<open>now\<close>
  is the clock, in seconds, taken to read the same throughout the request. A prefetch
  the request starts is left pending in the returned state.
\<close>

definition getCatalog ::
  "(string \<Rightarrow> string) \<Rightarrow> int \<Rightarrow> bool \<Rightarrow> server \<Rightarrow> UserConfig \<Rightarrow> content_type \<Rightarrow> string \<Rightarrow> int
     \<Rightarrow> error + WatchHistoryItem list \<Rightarrow> string option \<Rightarrow> error + AIResponse
     \<Rightarrow> StremioMeta list \<times> server" where
  "getCatalog sha now traktConfigured st config contentType categoryId skip trakt profile resp =
     (if \<not> traktConfigured then (createFallbackCatalog ''Trakt credentials not configured'', st)
      else
        (let userId = extractUserId config;
             cacheKey = userId @ '':'' @ categoryId
         in case getWatchHistory now st userId trakt profile of
              (Inl e, st1) \<Rightarrow> (catalog_catch e, st1)
            | (Inr history, st1) \<Rightarrow>
                if length history = 0 then
                  (createFallbackCatalog
                     ''No watch history found. Watch some content on Trakt first!'', st1)
                else
                  (let cached = (case getRecommendations sha now (db st1) cacheKey history of
                                   None \<Rightarrow> [] | Some recs \<Rightarrow> recs);
                       startIndex = skip;
                       endIndex = skip + int PAGE_SIZE;
                       generated =
                         (if endIndex > int (length cached) then
                            (let (g, st2) = generateBatch_call st1 userId config history cached
                                              categoryId;
                                 (outcome, st3) = generation_settles sha now st2 g resp
                             in case outcome of
                                  Inl e \<Rightarrow> Inl (e, st3)
                                | Inr newRecs \<Rightarrow>
                                    (let allRecommendations = cached @ newRecs in
                                     Inr (allRecommendations,
                                          st3\<lparr>db := setRecommendations sha now cacheKey
                                                       allRecommendations history (db st3)\<rparr>)))
                          else Inr (cached, st1))
                   in case generated of
                        Inl (e, st3) \<Rightarrow> (catalog_catch e, st3)
                      | Inr (allRecommendations, st4) \<Rightarrow>
                          (let remainingAfterThisPage = int (length allRecommendations) - endIndex;
                               st5 = (if remainingAfterThisPage < PREFETCH_THRESHOLD
                                      then triggerPrefetch st4 userId config history
                                             allRecommendations categoryId
                                      else st4);
                               pageRecommendations = js_slice allRecommendations startIndex endIndex
                           in (recommendationsToMetas pageRecommendations contentType, st5)))))"

section \<open>The similar-content handler (src/src/handlers/similar.ts)\<close>



section \<open>Sample inputs\<close>

text \<open>
  The state of a freshly started process, and the inputs of the sample runs below. The
  handlers are parametric in the digest function; the sample runs take the identity for it.
\<close>

definition idle_server :: server where
  "idle_server =
     \<lparr>db = \<lparr>history_cache = Map.empty, recommendation_cache = Map.empty\<rparr>,
      generationInProgress = Map.empty, providerCounter = 0, similarProviderCounter = 0,
      backend_calls = [], next_promise = 0\<rparr>"

definition apiKeyConfig :: "string \<Rightarrow> UserConfig" where
  "apiKeyConfig token =
     \<lparr>geminiApiKey = Some ''key'', traktAccessToken = token, traktRefreshToken = [],
      googleOAuth = None, openaiOAuth = None, claudeOAuth = None\<rparr>"

definition noCredentialsConfig :: "string \<Rightarrow> UserConfig" where
  "noCredentialsConfig token =
     \<lparr>geminiApiKey = None, traktAccessToken = token, traktRefreshToken = [],
      googleOAuth = None, openaiOAuth = None, claudeOAuth = None\<rparr>"

definition watched :: "string \<Rightarrow> int \<Rightarrow> WatchHistoryItem" where
  "watched i t =
     \<lparr>h_imdbId = i, h_title = ''Seen'', h_year = 1999, h_type = HMovie, h_genres = [],
      h_rating = None, watchedAt = t, h_runtime = None, h_certification = None\<rparr>"

definition recommend :: "string \<Rightarrow> Recommendation" where
  "recommend i = \<lparr>imdbId = i, title = ''Title '' @ i, reason = ''Because''\<rparr>"

definition answer :: "Recommendation list \<Rightarrow> error + AIResponse" where
  "answer recs = Inr \<lparr>recommendations = recs, analysis = None\<rparr>"

definition sample_request :: "Recommendation list \<Rightarrow> batch_request" where
  "sample_request existing =
     \<lparr>rq_userId = ''user'', rq_config = apiKeyConfig ''user'',
      rq_history = [watched ''tt0133093'' 0], rq_existingRecs = existing,
      rq_categoryId = ''for-you''\<rparr>"

definition uncredentialed_request :: batch_request where
  "uncredentialed_request =
     \<lparr>rq_userId = ''user'', rq_config = noCredentialsConfig ''user'',
      rq_history = [watched ''tt0133093'' 0], rq_existingRecs = [],
      rq_categoryId = ''for-you''\<rparr>"

text \<open>
  A store in which, at time \<open>t\<close>, the history of user \<^verbatim>\<open>user\<close> and the list \<open>recs\<close> for
  the category \<^verbatim>\<open>for-you\<close> were written.
\<close>

definition seeded_server :: "int \<Rightarrow> Recommendation list \<Rightarrow> server" where
  "seeded_server t recs =
     idle_server\<lparr>db :=
       setRecommendations id t ''user:for-you'' recs [watched ''tt0133093'' 0]
         (setHistory t ''user'' [watched ''tt0133093'' 0] None (db idle_server))\<rparr>"


section \<open>Evaluation and path lemmas\<close>

lemma selectProvider_apiKey:
  "selectProvider (apiKeyConfig t) n =
     Inr (\<lparr>sel_provider = gemini, sel_apiKey = ''key'', sel_accessToken = None\<rparr>, n)"
  by (simp add: selectProvider_def apiKeyConfig_def getAvailableProviders_def oauthProvider_def)

lemma selectProvider_noCredentials:
  "selectProvider (noCredentialsConfig t) n =
     Inl (OtherError
       ''No AI credentials configured. Please connect an AI provider or add an API key.'')"
  by (simp add: selectProvider_def noCredentialsConfig_def getAvailableProviders_def
        oauthProvider_def)

lemma extractUserId_apiKey: "extractUserId (apiKeyConfig ''user'') = ''user''"
  by (simp add: extractUserId_def apiKeyConfig_def)

lemmas run_defs =
  getCatalog_def getWatchHistory_def getHistory_def setHistory_def getRecommendations_def
  setRecommendations_def generateBatch_call_def generation_settles_def generation_body_def
  triggerPrefetch_def isValid_def CACHE_TTL_history_def CACHE_TTL_recommendations_def
  PAGE_SIZE_def PREFETCH_THRESHOLD_def FIRST_BATCH_SIZE_def getBatchSize_def
  JSON_stringify_def js_slice_def recommendationsToMetas_def createFallbackCatalog_def
  idle_server_def seeded_server_def answer_def extractUserId_apiKey selectProvider_apiKey
  Let_def

text \<open>A call for a key that is in the map returns the promise found there.\<close>

lemma generateBatch_call_joins:
  "generationInProgress st (userId @ '':'' @ categoryId @ '':generate'') = Some p \<Longrightarrow>
   generateBatch_call st userId config history existingRecs categoryId = (p, st)"
  by (simp add: generateBatch_call_def)

lemma generateBatch_calls_join:
  "generationInProgress st (userId @ '':'' @ categoryId @ '':generate'') = Some p \<Longrightarrow>
   \<forall>r \<in> set rs. rq_userId r = userId \<and> rq_categoryId r = categoryId \<Longrightarrow>
   generateBatch_calls st rs = (replicate (length rs) p, st)"
  by (induction rs) (simp_all add: generateBatch_call_joins)

text \<open>
  A call for a key that is not in the map registers a new promise; it calls the backend
  when \<^verbatim>\<open>selectProvider\<close> returns and not when it throws.
\<close>

lemma generateBatch_call_registers:
  assumes "generationInProgress st (userId @ '':'' @ categoryId @ '':generate'') = None"
      and "generateBatch_call st userId config history existingRecs categoryId = (g, st1)"
  shows "generationInProgress st1 (userId @ '':'' @ categoryId @ '':generate'') = Some g"
    and "length (backend_calls st1)
           = length (backend_calls st)
             + (case selectProvider config (providerCounter st) of Inl e \<Rightarrow> 0 | Inr s \<Rightarrow> 1)"
  using assms by (auto simp: generateBatch_call_def Let_def split: sum.splits)

text \<open>
  A prefetch whose \<^verbatim>\<open>selectProvider\<close> throws leaves the state that settling its rejected
  promise gives: no entry for the key and no backend call.
\<close>

lemma triggerPrefetch_rejected:
  assumes "generationInProgress st (userId @ '':'' @ categoryId @ '':generate'') = None"
      and "selectProvider config (providerCounter st) = Inl e"
      and "generateBatch_call st userId config history existingRecs categoryId = (g, st1)"
  shows "triggerPrefetch st userId config history existingRecs categoryId
           = snd (generation_settles sha now st1 g resp)"
    and "generationInProgress (triggerPrefetch st userId config history existingRecs categoryId)
           (userId @ '':'' @ categoryId @ '':generate'') = None"
    and "backend_calls (triggerPrefetch st userId config history existingRecs categoryId)
           = backend_calls st"
  using assms
  by (auto simp: triggerPrefetch_def generateBatch_call_def generation_settles_def
        generation_body_def Let_def)

lemma generateBatch_call_db:
  "generateBatch_call st userId config history existingRecs categoryId = (g, st1) \<Longrightarrow>
   db st1 = db st"
  by (auto simp: generateBatch_call_def Let_def split: option.splits sum.splits)

text \<open>
  While the arrow function runs, its own promise is still in the map, so the chained call
  finds it and starts nothing.
\<close>

lemma chained_call_joins_itself:
  assumes "generationInProgress st (g_cacheKey g) \<noteq> None"
      and "g_cacheKey g = g_userId g @ '':'' @ g_categoryId g @ '':generate''"
  shows "backend_calls (snd (generation_settles sha now st g resp)) = backend_calls st"
    and "generationInProgress (snd (generation_settles sha now st g resp))
           = (generationInProgress st)(g_cacheKey g := None)"
  using assms
  by (auto simp: generation_settles_def generation_body_def generateBatch_call_def Let_def
           split: generation_stage.splits sum.splits option.splits)

lemma generation_settles_failure_db:
  "generation_settles sha now st g resp = (Inl e, st1) \<Longrightarrow> db st1 = db st"
  by (auto simp: generation_settles_def generation_body_def Let_def
           split: generation_stage.splits sum.splits prod.splits)

lemma getWatchHistory_recommendations:
  "getWatchHistory now st userId trakt profile = (r, st1) \<Longrightarrow>
   recommendation_cache (db st1) = recommendation_cache (db st)"
  by (auto simp: getWatchHistory_def setHistory_def split: option.splits sum.splits)

text \<open>The paths through \<^verbatim>\<open>getCatalog\<close>.\<close>

lemma getCatalog_unconfigured:
  "getCatalog sha now False st config contentType categoryId skip trakt profile resp
     = (createFallbackCatalog ''Trakt credentials not configured'', st)"
  by (simp add: getCatalog_def)

lemma getCatalog_history_error:
  assumes "getWatchHistory now st (extractUserId config) trakt profile = (Inl e, st1)"
  shows "getCatalog sha now True st config contentType categoryId skip trakt profile resp
           = (catalog_catch e, st1)"
  using assms by (simp add: getCatalog_def)

lemma getCatalog_empty_history:
  assumes "getWatchHistory now st (extractUserId config) trakt profile = (Inr [], st1)"
  shows "getCatalog sha now True st config contentType categoryId skip trakt profile resp
           = (createFallbackCatalog
                ''No watch history found. Watch some content on Trakt first!'', st1)"
  using assms by (simp add: getCatalog_def)

lemma getCatalog_generation_error:
  assumes "getWatchHistory now st (extractUserId config) trakt profile = (Inr history, st1)"
      and "history \<noteq> []"
      and "cached = (case getRecommendations sha now (db st1)
                            (extractUserId config @ '':'' @ categoryId) history of
                       None \<Rightarrow> [] | Some recs \<Rightarrow> recs)"
      and "skip + int PAGE_SIZE > int (length cached)"
      and "generateBatch_call st1 (extractUserId config) config history cached categoryId
             = (g, st2)"
      and "generation_settles sha now st2 g resp = (Inl e, st3)"
  shows "getCatalog sha now True st config contentType categoryId skip trakt profile resp
           = (catalog_catch e, st3)"
  using assms by (simp add: getCatalog_def Let_def)

lemma getCatalog_generated:
  assumes "getWatchHistory now st (extractUserId config) trakt profile = (Inr history, st1)"
      and "history \<noteq> []"
      and "cached = (case getRecommendations sha now (db st1)
                            (extractUserId config @ '':'' @ categoryId) history of
                       None \<Rightarrow> [] | Some recs \<Rightarrow> recs)"
      and "skip + int PAGE_SIZE > int (length cached)"
      and "generateBatch_call st1 (extractUserId config) config history cached categoryId
             = (g, st2)"
      and "generation_settles sha now st2 g resp = (Inr newRecs, st3)"
  shows "fst (getCatalog sha now True st config contentType categoryId skip trakt profile resp)
           = recommendationsToMetas
               (js_slice (cached @ newRecs) skip (skip + int PAGE_SIZE)) contentType"
  using assms by (simp add: getCatalog_def Let_def)

lemma getCatalog_from_cache:
  assumes "getWatchHistory now st (extractUserId config) trakt profile = (Inr history, st1)"
      and "history \<noteq> []"
      and "cached = (case getRecommendations sha now (db st1)
                            (extractUserId config @ '':'' @ categoryId) history of
                       None \<Rightarrow> [] | Some recs \<Rightarrow> recs)"
      and "skip + int PAGE_SIZE \<le> int (length cached)"
  shows "fst (getCatalog sha now True st config contentType categoryId skip trakt profile resp)
           = recommendationsToMetas (js_slice cached skip (skip + int PAGE_SIZE)) contentType"
  using assms by (simp add: getCatalog_def Let_def)

lemma catalog_catch_single: "length (catalog_catch e) = 1"
  by (cases e) (simp_all add: createFallbackCatalog_def)

lemma seeded_history:
  "now - t < CACHE_TTL_history \<Longrightarrow>
   getWatchHistory now (seeded_server t recs) ''user'' trakt profile
     = (Inr [watched ''tt0133093'' 0], seeded_server t recs)"
  by (simp add: getWatchHistory_def getHistory_def setHistory_def setRecommendations_def
        seeded_server_def idle_server_def isValid_def JSON_stringify_def)

lemma seeded_recommendations:
  "now - t < CACHE_TTL_recommendations \<Longrightarrow>
   getRecommendations id now (db (seeded_server t recs)) ''user:for-you''
     [watched ''tt0133093'' 0] = Some recs"
  by (simp add: getRecommendations_def setHistory_def setRecommendations_def
        seeded_server_def idle_server_def isValid_def JSON_stringify_def)

lemma getHistory_expired:
  "history_cache store userId = Some row \<Longrightarrow> CACHE_TTL_history \<le> now - hr_updated_at row \<Longrightarrow>
   getHistory now store userId = None"
  by (simp add: getHistory_def isValid_def)

section \<open>Single-flight coalescing\<close>

text \<open>
  C1, as stated: for every set of concurrent calls of \<^verbatim>\<open>generateBatch\<close> with one key the
  backend is called exactly once. In this run three calls for one key are made, with
  nothing in progress before, by a caller whose configuration holds no AI credentials:
  \<^verbatim>\<open>selectProvider\<close> throws inside the arrow function before the backend is reached, and
  the backend has received no call.
\<close>

theorem single_flight_counterexample:
  "generationInProgress idle_server (''user'' @ '':'' @ ''for-you'' @ '':generate'') = None
   \<and> map rq_userId [uncredentialed_request, uncredentialed_request, uncredentialed_request]
       = [''user'', ''user'', ''user'']
   \<and> map rq_categoryId [uncredentialed_request, uncredentialed_request, uncredentialed_request]
       = [''for-you'', ''for-you'', ''for-you'']
   \<and> length (fst (generateBatch_calls idle_server
        [uncredentialed_request, uncredentialed_request, uncredentialed_request])) = 3
   \<and> length (backend_calls (snd (generateBatch_calls idle_server
        [uncredentialed_request, uncredentialed_request, uncredentialed_request]))) = 0"
  by (simp add: uncredentialed_request_def generateBatch_call_def idle_server_def
        selectProvider_noCredentials getBatchSize_def Let_def)

text \<open>
  C1, amended. Take any run of calls of \<^verbatim>\<open>generateBatch\<close> for one user and category made
  while no promise settles (the calls are concurrent), starting when no generation for
  the key is in progress. Then the generation backend receives at most one call: exactly
  one when \<^verbatim>\<open>selectProvider\<close> returns for the first caller, none when it throws. In both
  cases every caller waits for the same promise, the one registered in
  \<^verbatim>\<open>generationInProgress\<close>, and so every caller receives the one outcome with which that
  promise settles.
\<close>

theorem single_flight_at_most_once:
  assumes idle: "generationInProgress st (userId @ '':'' @ categoryId @ '':generate'') = None"
      and same: "\<forall>r \<in> set (r0 # rs). rq_userId r = userId \<and> rq_categoryId r = categoryId"
      and run: "generateBatch_calls st (r0 # rs) = (gs, st')"
  shows "length (backend_calls st')
           = length (backend_calls st)
             + (case selectProvider (rq_config r0) (providerCounter st) of
                  Inl e \<Rightarrow> 0 | Inr s \<Rightarrow> 1)
         \<and> length (backend_calls st') \<le> length (backend_calls st) + 1
         \<and> length gs = length (r0 # rs)
         \<and> (\<forall>g \<in> set gs. g = hd gs)
         \<and> generationInProgress st' (userId @ '':'' @ categoryId @ '':generate'') = Some (hd gs)
         \<and> (\<forall>g \<in> set gs. generation_settles sha now st' g resp
                             = generation_settles sha now st' (hd gs) resp)"
proof -
  obtain g st1 where first:
    "generateBatch_call st userId (rq_config r0) (rq_history r0) (rq_existingRecs r0) categoryId
       = (g, st1)"
    by (cases "generateBatch_call st userId (rq_config r0) (rq_history r0) (rq_existingRecs r0)
                 categoryId")
  have reg: "generationInProgress st1 (userId @ '':'' @ categoryId @ '':generate'') = Some g"
    and cnt: "length (backend_calls st1)
                = length (backend_calls st)
                  + (case selectProvider (rq_config r0) (providerCounter st) of
                       Inl e \<Rightarrow> 0 | Inr s \<Rightarrow> 1)"
    using generateBatch_call_registers [OF idle first] by simp_all
  have le: "length (backend_calls st1) \<le> length (backend_calls st) + 1"
    unfolding cnt by (simp split: sum.splits)
  have rest: "generateBatch_calls st1 rs = (replicate (length rs) g, st1)"
    using generateBatch_calls_join [OF reg] same by simp
  have "gs = g # replicate (length rs) g" and "st' = st1"
    using run first rest same by simp_all
  then show ?thesis using reg cnt le by auto
qed

theorem single_flight_at_most_once_witness:
  "generationInProgress idle_server (''user'' @ '':'' @ ''for-you'' @ '':generate'') = None
   \<and> map rq_userId
         [sample_request [], sample_request [], sample_request [recommend ''tt0000001'']]
       = [''user'', ''user'', ''user'']
   \<and> map rq_categoryId
         [sample_request [], sample_request [], sample_request [recommend ''tt0000001'']]
       = [''for-you'', ''for-you'', ''for-you'']
   \<and> length (backend_calls (snd (generateBatch_calls idle_server
        [sample_request [], sample_request [], sample_request [recommend ''tt0000001'']]))) = 1
   \<and> fst (generateBatch_calls idle_server
        [sample_request [], sample_request [], sample_request [recommend ''tt0000001'']])
       = replicate 3 (hd (fst (generateBatch_calls idle_server
        [sample_request [], sample_request [], sample_request [recommend ''tt0000001'']])))"
proof -
  let ?rs = "[sample_request [], sample_request [recommend ''tt0000001'']]"
  let ?run = "generateBatch_calls idle_server (sample_request [] # ?rs)"
  have idle: "generationInProgress idle_server (''user'' @ '':'' @ ''for-you'' @ '':generate'')
                = None"
    by (simp add: idle_server_def)
  have users: "map rq_userId (sample_request [] # ?rs) = [''user'', ''user'', ''user'']"
    and categories: "map rq_categoryId (sample_request [] # ?rs)
                       = [''for-you'', ''for-you'', ''for-you'']"
    by (simp_all add: sample_request_def)
  have same: "\<forall>r \<in> set (sample_request [] # ?rs).
                rq_userId r = ''user'' \<and> rq_categoryId r = ''for-you''"
    by (simp add: sample_request_def)
  have run: "?run = (fst ?run, snd ?run)" by simp
  have one: "length (backend_calls idle_server)
               + (case selectProvider (rq_config (sample_request []))
                         (providerCounter idle_server) of
                    Inl e \<Rightarrow> 0 | Inr s \<Rightarrow> 1) = 1"
    by (simp add: idle_server_def sample_request_def selectProvider_apiKey)
  have three: "length (sample_request [] # ?rs) = 3" by simp
  from single_flight_at_most_once [OF idle same run, of id 0 "answer []"]
  have once: "length (backend_calls (snd ?run)) = 1" and len: "length (fst ?run) = 3"
    and all: "\<forall>g \<in> set (fst ?run). g = hd (fst ?run)"
    unfolding one three by blast+
  have "fst ?run = replicate (length (fst ?run)) (hd (fst ?run))"
    using all by (simp add: replicate_length_same)
  then have "fst ?run = replicate 3 (hd (fst ?run))"
    unfolding len .
  with idle users categories once show ?thesis by blast
qed

section \<open>The key of the cache write in \<^verbatim>\<open>generateBatch\<close>\<close>

text \<open>
  C2 says that an expansion stores its list under the combined key of user and category.
  The write in \<^verbatim>\<open>generateBatch\<close> passes \<^verbatim>\<open>userId\<close> alone. In this run user \<^verbatim>\<open>user\<close>
  expands the category \<^verbatim>\<open>for-you\<close> and then the category \<^verbatim>\<open>trending\<close>: each list is
  stored in the row \<^verbatim>\<open>user\<close>, the second replacing the first, and neither
  \<^verbatim>\<open>user:for-you\<close> nor \<^verbatim>\<open>user:trending\<close> gets a row.
\<close>

theorem expansion_written_under_userId:
  "(let history = [watched ''tt0133093'' 0];
        (g, st1) = generateBatch_call idle_server ''user'' (apiKeyConfig ''user'') history []
                     ''for-you'';
        (outcome, st2) = generation_settles id 100 st1 g (answer [recommend ''tt0000001'']);
        (g', st3) = generateBatch_call st2 ''user'' (apiKeyConfig ''user'') history []
                      ''trending'';
        (outcome', st4) = generation_settles id 200 st3 g' (answer [recommend ''tt0000002''])
    in map_option rr_data (recommendation_cache (db st2) ''user'')
         = Some (Serialized [recommend ''tt0000001''])
       \<and> recommendation_cache (db st2) ''user:for-you'' = None
       \<and> map_option rr_data (recommendation_cache (db st4) ''user'')
         = Some (Serialized [recommend ''tt0000002''])
       \<and> recommendation_cache (db st4) ''user:for-you'' = None
       \<and> recommendation_cache (db st4) ''user:trending'' = None)"
  by (simp add: run_defs)

section \<open>Chained prefetch\<close>

text \<open>
  C3 says that a first expansion that yields at least 80% of its batch starts a second
  backend call. In this run the first expansion for a key asks for 15 items and receives
  15 new ones. The chained call of \<^verbatim>\<open>generateBatch\<close> is made, but it finds the running
  generation's own promise in \<^verbatim>\<open>generationInProgress\<close> and returns it: the backend has
  received one call when the expansion has settled, and nothing is in progress. Lemma
  \<open>chained_call_joins_itself\<close> shows the same for every registered generation and every
  response.
\<close>

theorem chained_prefetch_not_dispatched:
  "(let first = map (\<lambda>n. recommend (string_of_nat n)) [1..<16];
        (g, st1) = generateBatch_call idle_server ''user'' (apiKeyConfig ''user'')
                     [watched ''tt0133093'' 0] [] ''for-you'';
        (outcome, st2) = generation_settles id 100 st1 g (answer first)
    in g_isFirstBatch g \<and> g_batchSize g = 15 \<and> outcome = Inr first \<and> length first = 15
       \<and> length (backend_calls st1) = 1
       \<and> length (backend_calls st2) = 1
       \<and> generationInProgress st2 ''user:for-you:generate'' = None)"
  by (simp add: run_defs)

section \<open>Batch tiering\<close>

text \<open>
  C4, as stated: the sizes at 0, \<open>FIRST_BATCH_SIZE + 1\<close> and
  \<open>FIRST_BATCH_SIZE + SECOND_BATCH_SIZE + 1\<close> form a strictly increasing chain. They do
  not: 16 and 61 both lie in the third tier, so the last two sizes are both 100.
\<close>

theorem getBatchSize_chain_counterexample:
  "\<not> (batch_size (getBatchSize 0) < batch_size (getBatchSize (FIRST_BATCH_SIZE + 1))
      \<and> batch_size (getBatchSize (FIRST_BATCH_SIZE + 1))
          < batch_size (getBatchSize (FIRST_BATCH_SIZE + SECOND_BATCH_SIZE + 1)))"
  by (simp add: getBatchSize_def FIRST_BATCH_SIZE_def SECOND_BATCH_SIZE_def BATCH_SIZE_def)

text \<open>
  C4, amended: the three tiers are strictly increasing when each is sampled inside its
  own range: for every \<open>n\<close> with \<open>0 < n \<le> FIRST_BATCH_SIZE\<close> and every \<open>m\<close> above
  \<open>FIRST_BATCH_SIZE\<close>, the sizes at 0, \<open>n\<close> and \<open>m\<close> are 15, 45 and 100. At the sample
  points 0, 16 and 61 the sizes are 15, 100 and 100.
\<close>

theorem getBatchSize_tiers:
  "(0 < n \<and> n \<le> FIRST_BATCH_SIZE \<and> FIRST_BATCH_SIZE < m \<longrightarrow>
      batch_size (getBatchSize 0) = 15 \<and> batch_size (getBatchSize n) = 45
      \<and> batch_size (getBatchSize m) = 100
      \<and> batch_size (getBatchSize 0) < batch_size (getBatchSize n)
      \<and> batch_size (getBatchSize n) < batch_size (getBatchSize m))
   \<and> batch_size (getBatchSize 0) = 15
   \<and> batch_size (getBatchSize 16) = 100
   \<and> batch_size (getBatchSize 61) = 100"
  by (simp add: getBatchSize_def FIRST_BATCH_SIZE_def SECOND_BATCH_SIZE_def BATCH_SIZE_def)

theorem getBatchSize_tiers_witness:
  "(0::nat) < 15 \<and> 15 \<le> FIRST_BATCH_SIZE \<and> FIRST_BATCH_SIZE < 16
   \<and> batch_size (getBatchSize 0) < batch_size (getBatchSize 15)
   \<and> batch_size (getBatchSize 15) < batch_size (getBatchSize 16)"
  using getBatchSize_tiers [of 15 16] by (simp add: FIRST_BATCH_SIZE_def)

section \<open>Cache usability\<close>

text \<open>
  C5. \<^verbatim>\<open>getRecommendations\<close> returns a list exactly when the row exists, \<open>now - updated_at\<close>
  is strictly below the recommendation TTL (14400 seconds), the stored hash equals the
  digest of the current history, and the stored text parses to that list; in every other
  case it returns null. For a row as \<^verbatim>\<open>setRecommendations\<close> writes it, the list comes
  back exactly while the row is fresh and the two histories have the same digest. The
  digest is a function of the ordered pairs of content identifier and watch time.
\<close>

theorem getRecommendations_usable:
  "(getRecommendations sha now store key history = Some recs \<longleftrightarrow>
      (\<exists>row. recommendation_cache store key = Some row
           \<and> now - rr_updated_at row < CACHE_TTL_recommendations
           \<and> rr_history_hash row = hashHistory sha history
           \<and> JSON_parse (rr_data row) = Some recs))
   \<and> (getRecommendations sha now store key history = None \<longleftrightarrow>
      \<not> (\<exists>row stored. recommendation_cache store key = Some row
           \<and> now - rr_updated_at row < CACHE_TTL_recommendations
           \<and> rr_history_hash row = hashHistory sha history
           \<and> JSON_parse (rr_data row) = Some stored))
   \<and> getRecommendations sha now (setRecommendations sha written key recs history0 store) key
         history
       = (if now - written < CACHE_TTL_recommendations
             \<and> hashHistory sha history0 = hashHistory sha history
          then Some recs else None)
   \<and> hashHistory sha history
       = take 16 (sha (join ''|''
           (map (\<lambda>(contentId, watchTime). contentId @ '':'' @ string_of_int watchTime)
              (map (\<lambda>h. (h_imdbId h, watchedAt h)) history))))
   \<and> CACHE_TTL_recommendations = 14400"
proof -
  have a: "getRecommendations sha now store key history = Some recs \<longleftrightarrow>
      (\<exists>row. recommendation_cache store key = Some row
           \<and> now - rr_updated_at row < CACHE_TTL_recommendations
           \<and> rr_history_hash row = hashHistory sha history
           \<and> JSON_parse (rr_data row) = Some recs)"
    by (auto simp: getRecommendations_def isValid_def split: option.splits if_splits)
  have b: "getRecommendations sha now store key history = None \<longleftrightarrow>
      \<not> (\<exists>row stored. recommendation_cache store key = Some row
           \<and> now - rr_updated_at row < CACHE_TTL_recommendations
           \<and> rr_history_hash row = hashHistory sha history
           \<and> JSON_parse (rr_data row) = Some stored)"
    by (auto simp: getRecommendations_def isValid_def split: option.splits if_splits)
  have c: "getRecommendations sha now (setRecommendations sha written key recs history0 store)
             key history
       = (if now - written < CACHE_TTL_recommendations
             \<and> hashHistory sha history0 = hashHistory sha history
          then Some recs else None)"
    by (auto simp: getRecommendations_def setRecommendations_def isValid_def JSON_stringify_def
             split: option.splits)
  have d: "hashHistory sha history
       = take 16 (sha (join ''|''
           (map (\<lambda>(contentId, watchTime). contentId @ '':'' @ string_of_int watchTime)
              (map (\<lambda>h. (h_imdbId h, watchedAt h)) history))))"
    by (simp add: hashHistory_def comp_def)
  have e: "CACHE_TTL_recommendations = 14400"
    by (simp add: CACHE_TTL_recommendations_def)
  from a b c d e show ?thesis by blast
qed

section \<open>Failure of the synchronous expansion\<close>

text \<open>
  C6, as stated: when items are cached and the expansion awaited by the request fails,
  \<^verbatim>\<open>getCatalog\<close> returns the cached items. In this run one item is cached and usable, the
  page needs more, and the backend fails: the result is the placeholder entry, not the
  cached item.
\<close>

theorem generation_failure_counterexample:
  "getRecommendations id 1060 (db (seeded_server 1000 [recommend ''tt0000001'']))
         ''user:for-you'' [watched ''tt0133093'' 0] = Some [recommend ''tt0000001'']
   \<and> fst (getCatalog id 1060 True (seeded_server 1000 [recommend ''tt0000001''])
          (apiKeyConfig ''user'') Movie ''for-you'' 0 (Inl (TraktServiceError ''unused'')) None
          (Inl (AIProviderError ''quota exceeded'')))
     = createFallbackCatalog ''AI error: quota exceeded''
   \<and> fst (getCatalog id 1060 True (seeded_server 1000 [recommend ''tt0000001''])
          (apiKeyConfig ''user'') Movie ''for-you'' 0 (Inl (TraktServiceError ''unused'')) None
          (Inl (AIProviderError ''quota exceeded'')))
     \<noteq> recommendationsToMetas [recommend ''tt0000001''] Movie"
  by (simp add: run_defs recommend_def)

text \<open>
  C6, amended: for every page request with a non-empty history whose cached list is too
  short for the page and whose awaited expansion fails with an error, \<^verbatim>\<open>getCatalog\<close>
  returns the single placeholder entry built from that error (description
  \<^verbatim>\<open>AI error: <message>\<close> for a provider error); the stored recommendation lists are left
  as they were.
\<close>

theorem getCatalog_generation_failure:
  assumes hist: "getWatchHistory now st (extractUserId config) trakt profile = (Inr history, st1)"
      and nonempty: "history \<noteq> []"
      and cached: "cached = (case getRecommendations sha now (db st1)
                                    (extractUserId config @ '':'' @ categoryId) history of
                               None \<Rightarrow> [] | Some recs \<Rightarrow> recs)"
      and short: "skip + int PAGE_SIZE > int (length cached)"
      and call: "generateBatch_call st1 (extractUserId config) config history cached categoryId
                   = (g, st2)"
      and fails: "generation_settles sha now st2 g resp = (Inl e, st3)"
  shows "getCatalog sha now True st config contentType categoryId skip trakt profile resp
           = (catalog_catch e, st3)
         \<and> length (catalog_catch e) = 1
         \<and> catalog_catch (AIProviderError m) = createFallbackCatalog (''AI error: '' @ m)
         \<and> catalog_catch (OtherError m)
             = createFallbackCatalog ''Failed to generate recommendations''
         \<and> recommendation_cache (db st3) = recommendation_cache (db st)"
proof -
  have "db st3 = db st2"
    using fails by (rule generation_settles_failure_db)
  also have "db st2 = db st1"
    using call by (rule generateBatch_call_db)
  finally have "recommendation_cache (db st3) = recommendation_cache (db st)"
    using getWatchHistory_recommendations [OF hist] by simp
  moreover have "getCatalog sha now True st config contentType categoryId skip trakt profile resp
           = (catalog_catch e, st3)"
    using hist nonempty cached short call fails by (rule getCatalog_generation_error)
  ultimately show ?thesis
    by (simp add: catalog_catch_single)
qed

theorem getCatalog_generation_failure_witness:
  "getCatalog id 1060 True (seeded_server 1000 [recommend ''tt0000001''])
     (apiKeyConfig ''user'') Movie ''for-you'' 0 (Inl (TraktServiceError ''unused'')) None
     (Inl (AIProviderError ''quota exceeded''))
   = (createFallbackCatalog ''AI error: quota exceeded'',
      snd (generation_settles id 1060
        (snd (generateBatch_call (seeded_server 1000 [recommend ''tt0000001'']) ''user''
               (apiKeyConfig ''user'') [watched ''tt0133093'' 0] [recommend ''tt0000001'']
               ''for-you''))
        (fst (generateBatch_call (seeded_server 1000 [recommend ''tt0000001'']) ''user''
               (apiKeyConfig ''user'') [watched ''tt0133093'' 0] [recommend ''tt0000001'']
               ''for-you''))
        (Inl (AIProviderError ''quota exceeded''))))"
proof -
  let ?st = "seeded_server 1000 [recommend ''tt0000001'']"
  let ?history = "[watched ''tt0133093'' 0]"
  let ?call = "generateBatch_call ?st ''user'' (apiKeyConfig ''user'') ?history
                 [recommend ''tt0000001''] ''for-you''"
  let ?resp = "Inl (AIProviderError ''quota exceeded'') :: error + AIResponse"
  let ?settle = "generation_settles id 1060 (snd ?call) (fst ?call) ?resp"
  have hist: "getWatchHistory 1060 ?st (extractUserId (apiKeyConfig ''user''))
                (Inl (TraktServiceError ''unused'')) None = (Inr ?history, ?st)"
    by (simp add: seeded_history extractUserId_apiKey CACHE_TTL_history_def)
  have nonempty: "?history \<noteq> []" by simp
  have cached: "[recommend ''tt0000001'']
      = (case getRecommendations id 1060 (db ?st)
                (extractUserId (apiKeyConfig ''user'') @ '':'' @ ''for-you'') ?history of
           None \<Rightarrow> [] | Some recs \<Rightarrow> recs)"
    using seeded_recommendations [of 1060 1000 "[recommend ''tt0000001'']"]
    by (simp add: extractUserId_apiKey CACHE_TTL_recommendations_def)
  have short: "0 + int PAGE_SIZE > int (length [recommend ''tt0000001''])"
    by (simp add: PAGE_SIZE_def)
  have call: "generateBatch_call ?st (extractUserId (apiKeyConfig ''user''))
                (apiKeyConfig ''user'') ?history [recommend ''tt0000001''] ''for-you''
              = (fst ?call, snd ?call)"
    by (simp add: extractUserId_apiKey)
  have fails: "?settle = (Inl (AIProviderError ''quota exceeded''), snd ?settle)"
    by (simp add: generateBatch_call_def generation_settles_def generation_body_def
          seeded_server_def idle_server_def selectProvider_apiKey Let_def)
  from getCatalog_generation_failure [OF hist nonempty cached short call fails,
         of Movie "''quota exceeded''"]
  show ?thesis by simp
qed

section \<open>Repeated items in a backend response\<close>

text \<open>
  C7 says the accumulated list never repeats a content identifier. The second filter of
  \<^verbatim>\<open>generateBatch\<close> removes the items whose identifier is in the existing list, and does not
  compare the items of one response with each other. In this run the list is empty and
  the backend answers with the same title twice: both the page served and the list stored
  for the key hold it twice.
\<close>

theorem repeated_response_duplicates:
  "(let (metas, st) = getCatalog id 1060 True idle_server (apiKeyConfig ''user'') Movie
                        ''for-you'' 0 (Inr [watched ''tt0133093'' 0]) None
                        (answer [recommend ''tt0000001'', recommend ''tt0000001''])
    in map meta_id metas = [''tt0000001'', ''tt0000001'']
       \<and> map_option rr_data (recommendation_cache (db st) ''user:for-you'')
           = Some (Serialized [recommend ''tt0000001'', recommend ''tt0000001'']))"
  by (simp add: run_defs recommend_def)

section \<open>Failure of the history fetch\<close>

text \<open>
  C8, as stated: when a prior snapshot is in the store, even an expired one, and the
  history fetch fails, the request is served from the snapshot. In this run the snapshot
  is exactly one TTL old and Trakt fails: the result is the placeholder entry.
\<close>

theorem stale_history_counterexample:
  "history_cache (db (seeded_server 1000 [])) ''user''
     = Some \<lparr>hr_data = Serialized [watched ''tt0133093'' 0], hr_trakt_username = None,
             hr_item_count = 1, hr_created_at = 1000, hr_updated_at = 1000\<rparr>
   \<and> fst (getCatalog id 4600 True (seeded_server 1000 []) (apiKeyConfig ''user'') Movie
            ''for-you'' 0 (Inl (TraktServiceError ''Unauthorized - token may be expired'')) None
            (answer [recommend ''tt0000001'']))
     = createFallbackCatalog ''Trakt error: Unauthorized - token may be expired''"
  by (simp add: run_defs)

text \<open>
  C8, amended: for every page request where the prior snapshot is older than the history
  TTL (\<open>now - updated_at\<close> at least 3600 seconds) and the history fetch fails,
  \<^verbatim>\<open>getCatalog\<close> returns the single placeholder entry built from the error (description
  \<^verbatim>\<open>Trakt error: <message>\<close> for a Trakt error) and leaves the state, the prior snapshot
  included, unchanged.
\<close>

theorem getCatalog_history_fetch_failure:
  assumes prior: "history_cache (db st) (extractUserId config) = Some row"
      and old: "CACHE_TTL_history \<le> now - hr_updated_at row"
  shows "getCatalog sha now True st config contentType categoryId skip (Inl e) profile resp
           = (catalog_catch e, st)
         \<and> length (catalog_catch e) = 1
         \<and> catalog_catch (TraktServiceError m) = createFallbackCatalog (''Trakt error: '' @ m)
         \<and> CACHE_TTL_history = 3600"
proof -
  have "getWatchHistory now st (extractUserId config) (Inl e) profile = (Inl e, st)"
    using getHistory_expired [OF prior old] by (simp add: getWatchHistory_def)
  then have "getCatalog sha now True st config contentType categoryId skip (Inl e) profile resp
           = (catalog_catch e, st)"
    by (rule getCatalog_history_error)
  then show ?thesis
    by (simp add: catalog_catch_single CACHE_TTL_history_def)
qed

theorem getCatalog_history_fetch_failure_witness:
  "history_cache (db (seeded_server 1000 [])) (extractUserId (apiKeyConfig ''user''))
     = Some \<lparr>hr_data = Serialized [watched ''tt0133093'' 0], hr_trakt_username = None,
             hr_item_count = 1, hr_created_at = 1000, hr_updated_at = 1000\<rparr>
   \<and> CACHE_TTL_history \<le> 4600 - 1000
   \<and> getCatalog id 4600 True (seeded_server 1000 []) (apiKeyConfig ''user'') Movie
        ''for-you'' 0 (Inl (TraktServiceError ''Unauthorized - token may be expired'')) None
        (answer [recommend ''tt0000001''])
     = (createFallbackCatalog ''Trakt error: Unauthorized - token may be expired'',
        seeded_server 1000 [])"
proof -
  let ?row = "\<lparr>hr_data = Serialized [watched ''tt0133093'' 0], hr_trakt_username = None,
               hr_item_count = 1, hr_created_at = 1000, hr_updated_at = 1000\<rparr>"
  have prior: "history_cache (db (seeded_server 1000 [])) (extractUserId (apiKeyConfig ''user''))
                 = Some ?row"
    by (simp add: seeded_server_def idle_server_def setHistory_def setRecommendations_def
          JSON_stringify_def extractUserId_apiKey)
  have old: "CACHE_TTL_history \<le> 4600 - hr_updated_at ?row"
    by (simp add: CACHE_TTL_history_def)
  from getCatalog_history_fetch_failure [OF prior old, of id Movie "''for-you''" 0
         "TraktServiceError ''Unauthorized - token may be expired''" None
         "answer [recommend ''tt0000001'']"]
  have "getCatalog id 4600 True (seeded_server 1000 []) (apiKeyConfig ''user'') Movie
        ''for-you'' 0 (Inl (TraktServiceError ''Unauthorized - token may be expired'')) None
        (answer [recommend ''tt0000001''])
     = (createFallbackCatalog ''Trakt error: Unauthorized - token may be expired'',
        seeded_server 1000 [])"
    by simp
  with prior old show ?thesis by simp
qed

section \<open>Empty pages\<close>

text \<open>
  C9, as stated: whenever the slice for the page is empty, \<^verbatim>\<open>getCatalog\<close> returns a
  placeholder entry. In this run the history is not empty, nothing is cached and the
  backend answers with no items: the slice is empty and the result is the empty list.
\<close>

theorem empty_page_counterexample:
  "js_slice ([] @ recommendations \<lparr>recommendations = [], analysis = None\<rparr>) 0 (0 + int PAGE_SIZE)
     = ([] :: Recommendation list)
   \<and> fst (getCatalog id 1060 True idle_server (apiKeyConfig ''user'') Movie ''for-you'' 0
          (Inr [watched ''tt0133093'' 0]) None (answer [])) = []"
  by (simp add: run_defs)

text \<open>
  C9, amended: \<^verbatim>\<open>getCatalog\<close> returns the single placeholder entry when the Trakt
  credentials are not configured, when the history fetch fails, when the history is empty
  and when the awaited expansion fails. In every other request it returns one entry for
  each item of the slice \<open>[skip, skip + PAGE_SIZE)\<close> of the accumulated list (the cached
  list, followed by the new items when an expansion was needed), so it returns the empty
  list when that slice is empty.
\<close>

theorem getCatalog_result:
  "fst (getCatalog sha now False st config contentType categoryId skip trakt profile resp)
     = createFallbackCatalog ''Trakt credentials not configured''
   \<and> (getWatchHistory now st (extractUserId config) trakt profile = (Inl e, st1) \<longrightarrow>
        fst (getCatalog sha now True st config contentType categoryId skip trakt profile resp)
          = catalog_catch e)
   \<and> (getWatchHistory now st (extractUserId config) trakt profile = (Inr [], st1) \<longrightarrow>
        fst (getCatalog sha now True st config contentType categoryId skip trakt profile resp)
          = createFallbackCatalog ''No watch history found. Watch some content on Trakt first!'')
   \<and> (getWatchHistory now st (extractUserId config) trakt profile = (Inr history, st1)
        \<and> history \<noteq> []
        \<and> cached = (case getRecommendations sha now (db st1)
                            (extractUserId config @ '':'' @ categoryId) history of
                       None \<Rightarrow> [] | Some recs \<Rightarrow> recs)
        \<and> skip + int PAGE_SIZE \<le> int (length cached) \<longrightarrow>
        fst (getCatalog sha now True st config contentType categoryId skip trakt profile resp)
          = recommendationsToMetas (js_slice cached skip (skip + int PAGE_SIZE)) contentType)
   \<and> (getWatchHistory now st (extractUserId config) trakt profile = (Inr history, st1)
        \<and> history \<noteq> []
        \<and> cached = (case getRecommendations sha now (db st1)
                            (extractUserId config @ '':'' @ categoryId) history of
                       None \<Rightarrow> [] | Some recs \<Rightarrow> recs)
        \<and> skip + int PAGE_SIZE > int (length cached)
        \<and> generateBatch_call st1 (extractUserId config) config history cached categoryId
             = (g, st2)
        \<and> generation_settles sha now st2 g resp = (Inl e, st3) \<longrightarrow>
        fst (getCatalog sha now True st config contentType categoryId skip trakt profile resp)
          = catalog_catch e)
   \<and> (getWatchHistory now st (extractUserId config) trakt profile = (Inr history, st1)
        \<and> history \<noteq> []
        \<and> cached = (case getRecommendations sha now (db st1)
                            (extractUserId config @ '':'' @ categoryId) history of
                       None \<Rightarrow> [] | Some recs \<Rightarrow> recs)
        \<and> skip + int PAGE_SIZE > int (length cached)
        \<and> generateBatch_call st1 (extractUserId config) config history cached categoryId
             = (g, st2)
        \<and> generation_settles sha now st2 g resp = (Inr newRecs, st3) \<longrightarrow>
        fst (getCatalog sha now True st config contentType categoryId skip trakt profile resp)
          = recommendationsToMetas
              (js_slice (cached @ newRecs) skip (skip + int PAGE_SIZE)) contentType)
   \<and> length (recommendationsToMetas page contentType) = length page
   \<and> length (createFallbackCatalog message) = 1
   \<and> length (catalog_catch e) = 1"
proof (intro conjI impI)
  show "fst (getCatalog sha now False st config contentType categoryId skip trakt profile resp)
          = createFallbackCatalog ''Trakt credentials not configured''"
    by (simp add: getCatalog_unconfigured)
next
  assume "getWatchHistory now st (extractUserId config) trakt profile = (Inl e, st1)"
  then show "fst (getCatalog sha now True st config contentType categoryId skip trakt profile
                    resp) = catalog_catch e"
    by (simp add: getCatalog_history_error)
next
  assume "getWatchHistory now st (extractUserId config) trakt profile = (Inr [], st1)"
  then show "fst (getCatalog sha now True st config contentType categoryId skip trakt profile
                    resp)
      = createFallbackCatalog ''No watch history found. Watch some content on Trakt first!''"
    by (simp add: getCatalog_empty_history)
next
  assume "getWatchHistory now st (extractUserId config) trakt profile = (Inr history, st1)
        \<and> history \<noteq> []
        \<and> cached = (case getRecommendations sha now (db st1)
                            (extractUserId config @ '':'' @ categoryId) history of
                       None \<Rightarrow> [] | Some recs \<Rightarrow> recs)
        \<and> skip + int PAGE_SIZE \<le> int (length cached)"
  then show "fst (getCatalog sha now True st config contentType categoryId skip trakt profile
                    resp)
      = recommendationsToMetas (js_slice cached skip (skip + int PAGE_SIZE)) contentType"
    by (intro getCatalog_from_cache) blast+
next
  assume "getWatchHistory now st (extractUserId config) trakt profile = (Inr history, st1)
        \<and> history \<noteq> []
        \<and> cached = (case getRecommendations sha now (db st1)
                            (extractUserId config @ '':'' @ categoryId) history of
                       None \<Rightarrow> [] | Some recs \<Rightarrow> recs)
        \<and> skip + int PAGE_SIZE > int (length cached)
        \<and> generateBatch_call st1 (extractUserId config) config history cached categoryId
             = (g, st2)
        \<and> generation_settles sha now st2 g resp = (Inl e, st3)"
  then have "getCatalog sha now True st config contentType categoryId skip trakt profile resp
               = (catalog_catch e, st3)"
    by (intro getCatalog_generation_error) blast+
  then show "fst (getCatalog sha now True st config contentType categoryId skip trakt profile
                    resp) = catalog_catch e"
    by simp
next
  assume "getWatchHistory now st (extractUserId config) trakt profile = (Inr history, st1)
        \<and> history \<noteq> []
        \<and> cached = (case getRecommendations sha now (db st1)
                            (extractUserId config @ '':'' @ categoryId) history of
                       None \<Rightarrow> [] | Some recs \<Rightarrow> recs)
        \<and> skip + int PAGE_SIZE > int (length cached)
        \<and> generateBatch_call st1 (extractUserId config) config history cached categoryId
             = (g, st2)
        \<and> generation_settles sha now st2 g resp = (Inr newRecs, st3)"
  then show "fst (getCatalog sha now True st config contentType categoryId skip trakt profile
                    resp)
      = recommendationsToMetas
          (js_slice (cached @ newRecs) skip (skip + int PAGE_SIZE)) contentType"
    by (intro getCatalog_generated) blast+
next
  show "length (recommendationsToMetas page contentType) = length page"
    by (simp add: recommendationsToMetas_def)
next
  show "length (createFallbackCatalog message) = 1"
    by (simp add: createFallbackCatalog_def)
next
  show "length (catalog_catch e) = 1"
    by (rule catalog_catch_single)
qed


theorem getCatalog_result_witness:
  "getWatchHistory 1060 idle_server (extractUserId (apiKeyConfig ''user''))
       (Inr [watched ''tt0133093'' 0]) None
     = (Inr [watched ''tt0133093'' 0],
        idle_server\<lparr>db := setHistory 1060 ''user'' [watched ''tt0133093'' 0] None
                               (db idle_server)\<rparr>)
   \<and> js_slice ([] @ []) 0 (0 + int PAGE_SIZE) = ([] :: Recommendation list)
   \<and> fst (getCatalog id 1060 True idle_server (apiKeyConfig ''user'') Movie ''for-you'' 0
          (Inr [watched ''tt0133093'' 0]) None (answer [])) = []"
proof -
  let ?history = "[watched ''tt0133093'' 0]"
  let ?st1 = "idle_server\<lparr>db := setHistory 1060 ''user'' ?history None (db idle_server)\<rparr>"
  let ?call = "generateBatch_call ?st1 (extractUserId (apiKeyConfig ''user''))
                 (apiKeyConfig ''user'') ?history [] ''for-you''"
  let ?settle = "generation_settles id 1060 (snd ?call) (fst ?call) (answer [])"
  have hist: "getWatchHistory 1060 idle_server (extractUserId (apiKeyConfig ''user''))
                (Inr ?history) None = (Inr ?history, ?st1)"
    by (simp add: getWatchHistory_def getHistory_def idle_server_def extractUserId_apiKey)
  have cached: "[] = (case getRecommendations id 1060 (db ?st1)
                             (extractUserId (apiKeyConfig ''user'') @ '':'' @ ''for-you'')
                             ?history of
                        None \<Rightarrow> [] | Some recs \<Rightarrow> recs)"
    by (simp add: getRecommendations_def setHistory_def idle_server_def extractUserId_apiKey)
  have short: "0 + int PAGE_SIZE > int (length ([] :: Recommendation list))"
    by (simp add: PAGE_SIZE_def)
  have call: "?call = (fst ?call, snd ?call)" by simp
  have settle: "?settle = (Inr [], snd ?settle)"
    by (simp add: run_defs)
  have page: "js_slice ([] @ []) 0 (0 + int PAGE_SIZE) = ([] :: Recommendation list)"
    by (simp add: js_slice_def)
  from getCatalog_result [where sha = id and now = 1060 and st = idle_server
         and config = "apiKeyConfig ''user''" and contentType = Movie
         and categoryId = "''for-you''" and skip = 0 and trakt = "Inr ?history"
         and profile = None and resp = "answer []" and history = ?history and ?st1.0 = ?st1
         and cached = "[]" and g = "fst ?call" and ?st2.0 = "snd ?call" and newRecs = "[]"
         and ?st3.0 = "snd ?settle"]
  have "fst (getCatalog id 1060 True idle_server (apiKeyConfig ''user'') Movie ''for-you'' 0
          (Inr ?history) None (answer []))
        = recommendationsToMetas (js_slice ([] @ []) 0 (0 + int PAGE_SIZE)) Movie"
    using hist cached short call settle by blast
  then have "fst (getCatalog id 1060 True idle_server (apiKeyConfig ''user'') Movie ''for-you'' 0
          (Inr ?history) None (answer [])) = []"
    unfolding page by (simp add: recommendationsToMetas_def)
  with hist page show ?thesis by blast
qed

section \<open>Similar-content results are shared\<close>




end
